theory Spec2Isabelle
  imports Complex_Main "HOL-Library.AList" "HOL-Library.Word"
begin

section \<open>The document store behind \<open>models.py\<close>\<close>

text \<open>
  \<open>models.py\<close> talks to one MongoDB cluster through the module-level \<open>client\<close>.
  The cluster is made explicit here: every operation takes the cluster state and
  returns the new one. A cluster is an association list of databases, a database an
  association list of collections, a collection the list of its documents in natural
  order. Dictionaries are association lists, so that the order of the fields is
  that of the dictionary.

  The model stops at the driver: reachability of the cluster, the validation of
  database and collection names and the size limits of the wire format are not part
  of it.
\<close>

subsection \<open>Values and identifiers\<close>

text \<open>
  \<open>bson.objectid.ObjectId\<close> wraps the bytes of an identifier; \<open>binary\<close> reads them.
\<close>

datatype oid = ObjectId (binary: "8 word list")

text \<open>
  The values of a field. \<open>VOther r\<close> stands for any other value (a float, an array,
  an embedded document) and carries what Python's \<open>str\<close> prints for it.
\<close>

datatype val = VNull | VBool bool | VInt int | VStr string | VOid oid | VOther string

text \<open>
  A document as the code sees it is a dictionary. The store keeps \<open>_id\<close>, which
  every stored document has, apart from the other fields.
\<close>

type_synonym document = "(string \<times> val) list"
type_synonym stored = "val \<times> document"
type_synonym collection = "stored list"
type_synonym database = "(string \<times> collection) list"
type_synonym client = "(string \<times> database) list"

datatype error = InvalidId | KeyError | ValueError | ZeroDivisionError
  | AttributeError | WriteError | DuplicateKeyError

definition SECURE_DB_NAME :: string where
  "SECURE_DB_NAME = ''secure_auth''"

definition SECURE_USERS_COLL :: string where
  "SECURE_USERS_COLL = ''users''"

subsection \<open>The driver\<close>

text \<open>
  \<open>client[db_name]\<close>: the collections of a database; a database that was never
  written to has none.
\<close>

definition get_db :: "client \<Rightarrow> string \<Rightarrow> database" where
  "get_db c db_name = (case map_of c db_name of None \<Rightarrow> [] | Some d \<Rightarrow> d)"

text \<open>\<open>client.list_database_names()\<close>: a database exists while it holds a collection.\<close>

definition list_database_names :: "client \<Rightarrow> string list" where
  "list_database_names c = map fst (filter (\<lambda>(n, d). d \<noteq> []) c)"

text \<open>\<open>db.list_collection_names()\<close>.\<close>

definition list_collection_names :: "database \<Rightarrow> string list" where
  "list_collection_names d = map fst d"

text \<open>\<open>db.create_collection(coll_name)\<close>, called only for a name that is not there.\<close>

definition db_create_collection :: "client \<Rightarrow> string \<Rightarrow> string \<Rightarrow> client" where
  "db_create_collection c db_name coll_name =
     AList.update db_name (get_db c db_name @ [(coll_name, [])]) c"

text \<open>\<open>db.drop_collection(coll_name)\<close>.\<close>

definition db_drop_collection :: "client \<Rightarrow> string \<Rightarrow> string \<Rightarrow> client" where
  "db_drop_collection c db_name coll_name =
     AList.update db_name (AList.delete coll_name (get_db c db_name)) c"

text \<open>\<open>client.drop_database(db_name)\<close>; dropping a database that is not there does nothing.\<close>

definition drop_database :: "client \<Rightarrow> string \<Rightarrow> client" where
  "drop_database c db_name = AList.delete db_name c"

subsection \<open>Identifiers as text\<close>

text \<open>
  \<open>ObjectId(doc_id)\<close> on a string: the string must have 24 characters and
  \<open>bytes.fromhex\<close> must accept it, otherwise \<open>InvalidId\<close> is raised.
  \<open>bytes.fromhex\<close> reads two hexadecimal digits for a byte and skips ASCII
  whitespace in front of a byte. Every character outside ASCII is rejected, so
  counting bytes or code points gives the same result.
\<close>

definition is_space :: "char \<Rightarrow> bool" where
  "is_space c = (c \<in> set [CHR '' '', CHR 0x09, CHR 0x0A, CHR 0x0B, CHR 0x0C, CHR 0x0D])"

definition hexval :: "char \<Rightarrow> nat option" where
  "hexval c = map_of (zip ''0123456789abcdefABCDEF''
       [0, 1, 2, 3, 4, 5, 6, 7, 8, 9, 10, 11, 12, 13, 14, 15, 10, 11, 12, 13, 14, 15]) c"

fun fromhex :: "string \<Rightarrow> 8 word list option" where
  "fromhex [] = Some []"
| "fromhex [c] = (if is_space c then Some [] else None)"
| "fromhex (c # d # cs) =
     (if is_space c then fromhex (d # cs)
      else case (hexval c, hexval d) of
             (Some h, Some l) \<Rightarrow>
               (case fromhex cs of None \<Rightarrow> None
                | Some bs \<Rightarrow> Some (word_of_nat (16 * h + l) # bs))
           | _ \<Rightarrow> None)"

definition ObjectId_of_str :: "string \<Rightarrow> error + oid" where
  "ObjectId_of_str s =
     (if length s = 24
      then (case fromhex s of None \<Rightarrow> Inl InvalidId | Some bs \<Rightarrow> Inr (ObjectId bs))
      else Inl InvalidId)"

text \<open>\<open>str(oid)\<close> is \<open>binascii.hexlify(oid.binary)\<close>: two lower-case digits a byte.\<close>

definition hexdigit :: "nat \<Rightarrow> char" where
  "hexdigit n = ''0123456789abcdef'' ! n"

definition hexlify :: "8 word list \<Rightarrow> string" where
  "hexlify bs = concat (map (\<lambda>b. [hexdigit (unat b div 16), hexdigit (unat b mod 16)]) bs)"

text \<open>
  Python's \<open>str\<close> on an integer: the decimal digits, after the sign of a negative
  number. A decimal digit is the hexadecimal digit of the same value.
\<close>

fun digits10 :: "nat \<Rightarrow> string" where
  "digits10 n =
     (if n < 10 then [hexdigit n] else digits10 (n div 10) @ [hexdigit (n mod 10)])"

definition str_int :: "int \<Rightarrow> string" where
  "str_int i = (if i < 0 then CHR ''-'' # digits10 (nat (- i)) else digits10 (nat i))"

text \<open>Python's \<open>str\<close> on the value of a field.\<close>

fun py_str :: "val \<Rightarrow> string" where
  "py_str VNull = ''None''"
| "py_str (VBool b) = (if b then ''True'' else ''False'')"
| "py_str (VInt i) = str_int i"
| "py_str (VStr s) = s"
| "py_str (VOid x) = hexlify (binary x)"
| "py_str (VOther r) = r"

subsection \<open>Collections\<close>

text \<open>
  \<open>client[db_name][coll_name]\<close>, read: the documents in natural order; a collection
  that does not exist reads as empty.
\<close>

definition get_collection :: "client \<Rightarrow> string \<Rightarrow> string \<Rightarrow> collection" where
  "get_collection c db_name coll_name =
     (case map_of (get_db c db_name) coll_name of None \<Rightarrow> [] | Some ds \<Rightarrow> ds)"

text \<open>Writing the documents of a collection back creates database and collection when absent.\<close>

definition put_collection :: "client \<Rightarrow> string \<Rightarrow> string \<Rightarrow> collection \<Rightarrow> client" where
  "put_collection c db_name coll_name ds =
     AList.update db_name (AList.update coll_name ds (get_db c db_name)) c"

text \<open>The dictionary the driver hands out for a stored document: \<open>_id\<close> comes first.\<close>

definition as_dict :: "stored \<Rightarrow> document" where
  "as_dict s = (''_id'', fst s) # snd s"

text \<open>\<open>coll.count_documents({})\<close>.\<close>

definition count_documents :: "collection \<Rightarrow> int" where
  "count_documents ds = int (length ds)"

text \<open>\<open>coll.find_one({key: v})\<close>: the first document whose field \<open>key\<close> equals \<open>v\<close>.\<close>

definition find_one :: "collection \<Rightarrow> string \<Rightarrow> val \<Rightarrow> document option" where
  "find_one ds key v = find (\<lambda>d. map_of d key = Some v) (map as_dict ds)"

text \<open>
  \<open>coll.find().skip(skip).limit(limit)\<close>: \<open>skip\<close> raises \<open>ValueError\<close> on a
  negative number, a limit of 0 is no limit and a negative limit counts as its
  absolute value.
\<close>

definition find_skip_limit :: "collection \<Rightarrow> int \<Rightarrow> int \<Rightarrow> error + document list" where
  "find_skip_limit ds skip limit =
     (if skip < 0 then Inl ValueError
      else Inr (let r = drop (nat skip) (map as_dict ds)
                in if limit = 0 then r else take (nat \<bar>limit\<bar>) r))"

text \<open>
  \<open>coll.insert_one(doc)\<close>. A document without \<open>_id\<close> gets the identifier the
  driver generates, here the argument \<open>new_oid\<close>. An \<open>_id\<close> that the collection
  already holds raises \<open>DuplicateKeyError\<close>. The result is \<open>inserted_id\<close>.
\<close>

definition insert_one :: "oid \<Rightarrow> collection \<Rightarrow> document \<Rightarrow> error + val \<times> collection" where
  "insert_one new_oid ds doc =
     (let idv = (case map_of doc ''_id'' of None \<Rightarrow> VOid new_oid | Some v \<Rightarrow> v)
      in if find_one ds ''_id'' idv \<noteq> None then Inl DuplicateKeyError
         else Inr (idv, ds @ [(idv, AList.delete ''_id'' doc)]))"

definition coll_insert_one ::
  "oid \<Rightarrow> client \<Rightarrow> string \<Rightarrow> string \<Rightarrow> document \<Rightarrow> (error + val) \<times> client" where
  "coll_insert_one new_oid c db_name coll_name doc =
     (case insert_one new_oid (get_collection c db_name coll_name) doc of
        Inl e \<Rightarrow> (Inl e, c)
      | Inr (idv, ds') \<Rightarrow> (Inr idv, put_collection c db_name coll_name ds'))"

text \<open>
  \<open>coll.update_one({"_id": x}, {"$set": data})\<close> changes the first document whose
  \<open>_id\<close> is \<open>x\<close>. A key of \<open>data\<close> is a path, field names separated by dots.

  A plain name is a path of one field name that is not empty, does not start with
  \<open>$\<close> and has no NUL character. When \<open>data\<close> is not empty and every key is a
  plain name the document gets the fields of \<open>data\<close>, a field it has in place and
  a new field at the end, and nothing is changed when no document matches.
\<close>

fun path_of :: "string \<Rightarrow> string list" where
  "path_of [] = [[]]"
| "path_of (c # cs) =
     (if c = CHR ''.'' then [] # path_of cs
      else (case path_of cs of [] \<Rightarrow> [[c]] | p # ps \<Rightarrow> (c # p) # ps))"

definition dollar_name :: "string \<Rightarrow> bool" where
  "dollar_name k = (case k of [] \<Rightarrow> False | c # cs \<Rightarrow> c = CHR ''$'')"

definition plain_name :: "string \<Rightarrow> bool" where
  "plain_name k =
     (k \<noteq> [] \<and> \<not> dollar_name k \<and> CHR ''.'' \<notin> set k \<and> CHR 0x00 \<notin> set k)"

definition set_fields :: "document \<Rightarrow> document \<Rightarrow> document" where
  "set_fields d data = foldl (\<lambda>a (k, v). AList.update k v a) d data"

text \<open>
  The store refuses an update of a document (\<open>WriteError\<close>, and the document stays
  as it was) that would change \<open>_id\<close>; setting \<open>_id\<close> to the value it has changes
  nothing. It also refuses a key with an empty field name (the empty key among
  them), a key whose first field name starts with \<open>$\<close>, and a path that leads
  below a value that is neither a document nor an array, be it \<open>_id\<close> or another
  field of the document. \<open>VOther\<close> may stand for a document or an array, every
  other value does not.
\<close>

fun atomic :: "val \<Rightarrow> bool" where
  "atomic (VOther r) = False"
| "atomic v = True"

definition refused_key :: "stored \<Rightarrow> string \<Rightarrow> bool" where
  "refused_key d k =
     (case path_of k of
        [] \<Rightarrow> True
      | name # rest \<Rightarrow>
          [] \<in> set (name # rest) \<or> dollar_name name
          \<or> (rest \<noteq> []
              \<and> (if name = ''_id'' then atomic (fst d)
                  else (case map_of (snd d) name of None \<Rightarrow> False | Some v \<Rightarrow> atomic v))))"

text \<open>
  What the store makes of any other payload depends on the values below the top
  level, which are not part of \<open>val\<close>, and for an empty payload on the version of
  the store. It is an argument of the model, \<open>store_set\<close>:
  for the document that matches (\<open>None\<close> when none does) and the payload it gives
  a write error or the fields of the document after the update. The store never
  changes \<open>_id\<close>, so the fields are all it gives.

  The result of \<open>update_one\<close> is \<open>modified_count\<close>: 0 when no document matches or
  the document stays as it was.
\<close>

type_synonym store_set = "stored option \<Rightarrow> document \<Rightarrow> error + document"

fun update_one ::
  "store_set \<Rightarrow> collection \<Rightarrow> oid \<Rightarrow> document \<Rightarrow> error + nat \<times> collection" where
  "update_one store_set [] x data =
     (if data \<noteq> [] \<and> list_all (\<lambda>(k, v). plain_name k) data then Inr (0, [])
      else (case store_set None data of
              Inl e \<Rightarrow> Inl e
            | Inr fields \<Rightarrow> Inr (0, [])))"
| "update_one store_set (d # ds) x data =
     (if fst d = VOid x
      then (if list_ex (\<lambda>(k, v). k = ''_id'' \<and> v \<noteq> VOid x) data
               \<or> list_ex (\<lambda>(k, v). refused_key d k) data
            then Inl WriteError
            else if data \<noteq> [] \<and> list_all (\<lambda>(k, v). plain_name k) data
            then (let fields = set_fields (snd d) (filter (\<lambda>(k, v). k \<noteq> ''_id'') data)
                  in Inr (if fields = snd d then 0 else 1, (fst d, fields) # ds))
            else (case store_set (Some d) data of
                    Inl e \<Rightarrow> Inl e
                  | Inr fields \<Rightarrow> Inr (if fields = snd d then 0 else 1, (fst d, fields) # ds)))
      else (case update_one store_set ds x data of
              Inl e \<Rightarrow> Inl e
            | Inr (n, ds') \<Rightarrow> Inr (n, d # ds')))"

definition coll_update_one ::
  "store_set \<Rightarrow> client \<Rightarrow> string \<Rightarrow> string \<Rightarrow> oid \<Rightarrow> document
     \<Rightarrow> (error + nat) \<times> client" where
  "coll_update_one store_set c db_name coll_name x data =
     (case update_one store_set (get_collection c db_name coll_name) x data of
        Inl e \<Rightarrow> (Inl e, c)
      | Inr (n, ds') \<Rightarrow>
          (Inr n, if n = 0 then c else put_collection c db_name coll_name ds'))"

text \<open>A store that refuses every payload that is left to \<open>store_set\<close>.\<close>

definition refuse_all :: store_set where
  "refuse_all d data = Inl WriteError"

text \<open>\<open>coll.delete_one({"_id": x})\<close>; the result is \<open>deleted_count\<close>.\<close>

fun delete_one :: "collection \<Rightarrow> oid \<Rightarrow> nat \<times> collection" where
  "delete_one [] x = (0, [])"
| "delete_one (d # ds) x =
     (if fst d = VOid x then (1, ds)
      else (case delete_one ds x of (n, ds') \<Rightarrow> (n, d # ds')))"

definition coll_delete_one ::
  "client \<Rightarrow> string \<Rightarrow> string \<Rightarrow> oid \<Rightarrow> nat \<times> client" where
  "coll_delete_one c db_name coll_name x =
     (case delete_one (get_collection c db_name coll_name) x of
        (n, ds') \<Rightarrow> (n, if n = 0 then c else put_collection c db_name coll_name ds'))"

section \<open>Catalog operations\<close>

definition list_databases :: "client \<Rightarrow> string list" where
  "list_databases c =
     (let dbs = list_database_names c
      in filter (\<lambda>d. d \<notin> set [''admin'', ''local'', ''config'']) dbs)"

definition get_collections :: "client \<Rightarrow> string \<Rightarrow> string list" where
  "get_collections c db_name = list_collection_names (get_db c db_name)"

definition create_collection :: "client \<Rightarrow> string \<Rightarrow> string \<Rightarrow> bool \<times> client" where
  "create_collection c db_name coll_name =
     (let existing = list_collection_names (get_db c db_name)
      in if coll_name \<in> set existing then (False, c)
         else (True, db_create_collection c db_name coll_name))"

definition delete_collection :: "client \<Rightarrow> string \<Rightarrow> string \<Rightarrow> bool \<times> client" where
  "delete_collection c db_name coll_name =
     (let existing = list_collection_names (get_db c db_name)
      in if coll_name \<notin> set existing then (False, c)
         else (True, db_drop_collection c db_name coll_name))"

definition delete_database :: "client \<Rightarrow> string \<Rightarrow> bool \<times> client" where
  "delete_database c db_name =
     (if db_name \<in> set [''admin'', ''local'', ''config''] then (False, c)
      else if db_name = SECURE_DB_NAME then (False, c)
      else (True, drop_database c db_name))"

section \<open>Document operations\<close>

record page_result =
  documents :: "document list"
  page :: int
  page_size :: int
  total :: int
  total_pages :: int

text \<open>
  The loop of \<open>paginate_documents\<close> over the cursor: \<open>d["_id"] = str(d["_id"])\<close>,
  which raises \<open>KeyError\<close> on a dictionary without \<open>_id\<close>.
\<close>

fun stringify_ids :: "document list \<Rightarrow> error + document list" where
  "stringify_ids [] = Inr []"
| "stringify_ids (d # ds) =
     (case map_of d ''_id'' of
        None \<Rightarrow> Inl KeyError
      | Some v \<Rightarrow>
          (case stringify_ids ds of
             Inl e \<Rightarrow> Inl e
           | Inr docs \<Rightarrow> Inr (AList.update ''_id'' (VStr (py_str v)) d # docs)))"

definition paginate_documents ::
  "client \<Rightarrow> string \<Rightarrow> string \<Rightarrow> int \<Rightarrow> int \<Rightarrow> error + page_result" where
  "paginate_documents c db_name coll_name pg pg_size =
     (let coll = get_collection c db_name coll_name;
          tot = count_documents coll;
          skip = (pg - 1) * pg_size
      in case find_skip_limit coll skip pg_size of
           Inl e \<Rightarrow> Inl e
         | Inr cursor \<Rightarrow>
             (case stringify_ids cursor of
                Inl e \<Rightarrow> Inl e
              | Inr docs \<Rightarrow>
                  if tot > 0 \<and> pg_size = 0 then Inl ZeroDivisionError
                  else Inr \<lparr>documents = docs, page = pg, page_size = pg_size, total = tot,
                         total_pages =
                           (if tot > 0 then (tot + pg_size - 1) div pg_size else 1)\<rparr>))"

definition get_document ::
  "client \<Rightarrow> string \<Rightarrow> string \<Rightarrow> string \<Rightarrow> error + document option" where
  "get_document c db_name coll_name doc_id =
     (let coll = get_collection c db_name coll_name
      in case ObjectId_of_str doc_id of
           Inl e \<Rightarrow> Inr None
         | Inr x \<Rightarrow>
             (case find_one coll ''_id'' (VOid x) of
                None \<Rightarrow> Inr None
              | Some d \<Rightarrow>
                  if d = [] then Inr None
                  else (case map_of d ''_id'' of
                          None \<Rightarrow> Inl KeyError
                        | Some v \<Rightarrow> Inr (Some (AList.update ''_id'' (VStr (py_str v)) d)))))"

definition insert_document ::
  "oid \<Rightarrow> client \<Rightarrow> string \<Rightarrow> string \<Rightarrow> document \<Rightarrow> (error + string) \<times> client" where
  "insert_document new_oid c db_name coll_name data =
     (case coll_insert_one new_oid c db_name coll_name data of
        (Inl e, c') \<Rightarrow> (Inl e, c')
      | (Inr inserted_id, c') \<Rightarrow> (Inr (py_str inserted_id), c'))"

definition update_document ::
  "store_set \<Rightarrow> client \<Rightarrow> string \<Rightarrow> string \<Rightarrow> string \<Rightarrow> document
     \<Rightarrow> (error + bool) \<times> client" where
  "update_document store_set c db_name coll_name doc_id data =
     (case ObjectId_of_str doc_id of
        Inl e \<Rightarrow> (Inr False, c)
      | Inr x \<Rightarrow>
          (case coll_update_one store_set c db_name coll_name x data of
             (Inl e, c') \<Rightarrow> (Inl e, c')
           | (Inr modified_count, c') \<Rightarrow> (Inr (modified_count > 0), c')))"

definition delete_document ::
  "client \<Rightarrow> string \<Rightarrow> string \<Rightarrow> string \<Rightarrow> bool \<times> client" where
  "delete_document c db_name coll_name doc_id =
     (case ObjectId_of_str doc_id of
        Inl e \<Rightarrow> (False, c)
      | Inr x \<Rightarrow>
          (case coll_delete_one c db_name coll_name x of
             (deleted_count, c') \<Rightarrow> (deleted_count > 0, c')))"

section \<open>Credentials\<close>

text \<open>
  \<open>secure_users\<close> is the collection \<open>users\<close> of the database \<open>secure_auth\<close>.
  \<open>os.getenv\<close> reads the environment \<open>env\<close>. \<open>generate_password_hash\<close> draws a salt,
  so what it returns for a password is an argument, \<open>gen\<close>; \<open>check_password_hash\<close>
  is the argument \<open>chk\<close>, applied to the stored hash and the password.
\<close>

definition secure_users :: "client \<Rightarrow> collection" where
  "secure_users c = get_collection c SECURE_DB_NAME SECURE_USERS_COLL"

definition getenv :: "(string \<Rightarrow> string option) \<Rightarrow> string \<Rightarrow> string \<Rightarrow> string" where
  "getenv env k dflt = (case env k of None \<Rightarrow> dflt | Some v \<Rightarrow> v)"

text \<open>The first component of the result is what \<open>print\<close> wrote.\<close>

definition init_auth_collection ::
  "(string \<Rightarrow> string option) \<Rightarrow> (string \<Rightarrow> string) \<Rightarrow> oid \<Rightarrow> client
     \<Rightarrow> (error + string list) \<times> client" where
  "init_auth_collection env gen new_oid c =
     (if count_documents (secure_users c) = 0
      then (let admin_username = getenv env ''ADMIN_USERNAME'' ''admin'';
                admin_password = getenv env ''ADMIN_PASSWORD'' ''admin123''
            in case coll_insert_one new_oid c SECURE_DB_NAME SECURE_USERS_COLL
                      [(''username'', VStr admin_username),
                       (''password_hash'', VStr (gen admin_password)),
                       (''role'', VStr ''admin'')] of
                 (Inl e, c') \<Rightarrow> (Inl e, c')
               | (Inr _, c') \<Rightarrow>
                   (Inr [''[INIT] Created default admin user: '' @ admin_username], c'))
      else (Inr [], c))"

definition verify_user ::
  "(string \<Rightarrow> string \<Rightarrow> bool) \<Rightarrow> client \<Rightarrow> string \<Rightarrow> string \<Rightarrow> error + bool" where
  "verify_user chk c username password =
     (case find_one (secure_users c) ''username'' (VStr username) of
        None \<Rightarrow> Inr False
      | Some user \<Rightarrow>
          if user = [] then Inr False
          else (case map_of user ''password_hash'' of
                  None \<Rightarrow> Inl KeyError
                | Some (VStr h) \<Rightarrow> Inr (chk h password)
                | Some _ \<Rightarrow> Inl AttributeError))"

fun list_credentials_loop :: "document list \<Rightarrow> error + document list" where
  "list_credentials_loop [] = Inr []"
| "list_credentials_loop (u # us) =
     (case (map_of u ''_id'', map_of u ''username'') of
        (Some i, Some n) \<Rightarrow>
          (case list_credentials_loop us of
             Inl e \<Rightarrow> Inl e
           | Inr users \<Rightarrow>
               Inr ([(''_id'', VStr (py_str i)), (''username'', n),
                     (''role'', case map_of u ''role'' of None \<Rightarrow> VStr [] | Some r \<Rightarrow> r)]
                    # users))
      | _ \<Rightarrow> Inl KeyError)"

definition list_credentials :: "client \<Rightarrow> error + document list" where
  "list_credentials c = list_credentials_loop (map as_dict (secure_users c))"

definition add_credential ::
  "(string \<Rightarrow> string) \<Rightarrow> oid \<Rightarrow> client \<Rightarrow> string \<Rightarrow> string \<Rightarrow> string
     \<Rightarrow> (error + string) \<times> client" where
  "add_credential gen new_oid c username password role =
     (let doc = [(''username'', VStr username),
                 (''password_hash'', VStr (gen password)),
                 (''role'', VStr role)]
      in case coll_insert_one new_oid c SECURE_DB_NAME SECURE_USERS_COLL doc of
           (Inl e, c') \<Rightarrow> (Inl e, c')
         | (Inr inserted_id, c') \<Rightarrow> (Inr (py_str inserted_id), c'))"

text \<open>\<open>if password:\<close> holds for a password that is neither \<open>None\<close> nor empty.\<close>

definition update_credential ::
  "store_set \<Rightarrow> (string \<Rightarrow> string) \<Rightarrow> client \<Rightarrow> string \<Rightarrow> string \<Rightarrow> string option
     \<Rightarrow> string \<Rightarrow> (error + bool) \<times> client" where
  "update_credential store_set gen c user_id username password role =
     (case ObjectId_of_str user_id of
        Inl e \<Rightarrow> (Inr False, c)
      | Inr x \<Rightarrow>
          (let upd = [(''username'', VStr username), (''role'', VStr role)];
               upd' = (case password of
                         None \<Rightarrow> upd
                       | Some p \<Rightarrow>
                           if p \<noteq> [] then upd @ [(''password_hash'', VStr (gen p))] else upd)
           in case coll_update_one store_set c SECURE_DB_NAME SECURE_USERS_COLL x upd' of
                (Inl e, c') \<Rightarrow> (Inl e, c')
              | (Inr modified_count, c') \<Rightarrow> (Inr (modified_count > 0), c')))"

definition delete_credential :: "client \<Rightarrow> string \<Rightarrow> bool \<times> client" where
  "delete_credential c user_id =
     (case ObjectId_of_str user_id of
        Inl e \<Rightarrow> (False, c)
      | Inr x \<Rightarrow>
          (case coll_delete_one c SECURE_DB_NAME SECURE_USERS_COLL x of
             (deleted_count, c') \<Rightarrow> (deleted_count > 0, c')))"

section \<open>The routing layer\<close>

text \<open>
  The views of \<open>api.py\<close> that guard a core operation. A view answers with a
  redirect to an endpoint or with a JSON body and a status; \<open>flash\<close> adds a message
  with its category to the list the view returns. The session is the dictionary
  the decorators \<open>login_required\<close> and \<open>api_auth_required\<close> look into.
\<close>

datatype response = Redirect string "string list" | Json "(string \<times> string) list" nat

definition quoted :: "string \<Rightarrow> string" where
  "quoted s = [CHR 0x27] @ s @ [CHR 0x27]"

definition delete_collection_view ::
  "(string \<times> string) list \<Rightarrow> client \<Rightarrow> string \<Rightarrow> string
     \<Rightarrow> response \<times> (string \<times> string) list \<times> client" where
  "delete_collection_view session c db_name coll_name =
     (if ''username'' \<notin> fst ` set session then (Redirect ''login'' [], [], c)
      else if db_name = SECURE_DB_NAME \<and> coll_name = ''users''
      then (Redirect ''view_collections'' [db_name],
            [(''Cannot delete '' @ quoted ''users'' @ '' collection from secure_auth'',
              ''error'')], c)
      else (case delete_collection c db_name coll_name of
              (ok, c') \<Rightarrow>
                (Redirect ''view_collections'' [db_name],
                 [if ok
                  then (''Collection '' @ quoted coll_name @ '' deleted from ''
                          @ quoted db_name, ''success'')
                  else (''Could not delete collection (maybe not found)'', ''error'')],
                 c')))"


section \<open>Facts about the store\<close>

lemma get_db_update:
  "get_db (AList.update n d c) m = (if m = n then d else get_db c m)"
  by (simp add: get_db_def AList.update_conv')

lemma get_collection_put:
  "get_collection (put_collection c db coll ds) db' coll' =
     (if db' = db \<and> coll' = coll then ds else get_collection c db' coll')"
  by (auto simp: get_collection_def put_collection_def get_db_update AList.update_conv')

lemma update_mem: "(n, d) \<in> set (AList.update n d c)"
  by (induction c) auto

lemma list_database_names_update:
  "d \<noteq> [] \<Longrightarrow> n \<in> set (list_database_names (AList.update n d c))"
  using update_mem [of n d c] by (force simp: list_database_names_def)

lemma get_db_create:
  "get_db (db_create_collection c db coll) m =
     (if m = db then get_db c db @ [(coll, [])] else get_db c m)"
  by (simp add: db_create_collection_def get_db_update)

lemma get_db_drop_collection:
  "get_db (db_drop_collection c db coll) m =
     (if m = db then AList.delete coll (get_db c db) else get_db c m)"
  by (simp add: db_drop_collection_def get_db_update)

lemma get_db_drop_database:
  "get_db (drop_database c n) m = (if m = n then [] else get_db c m)"
  by (simp add: get_db_def drop_database_def AList.delete_conv')

lemma list_database_names_drop:
  "list_database_names (drop_database c n) = removeAll n (list_database_names c)"
  by (induction c) (auto simp: list_database_names_def drop_database_def)

lemma find_one_id: "find_one ds ''_id'' v = None \<longleftrightarrow> v \<notin> fst ` set ds"
  by (auto simp: find_one_def find_None_iff as_dict_def)

lemma find_one_append:
  "find_one (ds @ [s]) k v =
     (case find_one ds k v of
        None \<Rightarrow> if map_of (as_dict s) k = Some v then Some (as_dict s) else None
      | Some d \<Rightarrow> Some d)"
  by (induction ds) (simp_all add: find_one_def)

lemma find_one_mem:
  "find_one ds k v = Some d \<Longrightarrow> \<exists>s\<in>set ds. d = as_dict s \<and> map_of d k = Some v"
  by (induction ds) (auto simp: find_one_def split: if_splits)


text \<open>
  The refusals at work, on a document with an identifier and a field \<open>x\<close>: a path
  into \<open>_id\<close>, a key that starts with \<open>$\<close>, the empty key and a path below the
  integer \<open>x\<close> all end in a write error, whatever \<open>store_set\<close> is.
\<close>

lemma update_one_refused_keys:
  "update_one store_set [(VOid x, [(''x'', VInt 1)])] x [(''_id.x'', VInt 2)] = Inl WriteError"
  "update_one store_set [(VOid x, [(''x'', VInt 1)])] x [(''$inc'', VInt 2)] = Inl WriteError"
  "update_one store_set [(VOid x, [(''x'', VInt 1)])] x [([], VInt 2)] = Inl WriteError"
  "update_one store_set [(VOid x, [(''x'', VInt 1)])] x [(''x.y'', VInt 2)] = Inl WriteError"
  by (simp_all add: refused_key_def dollar_name_def)

lemma find_skip_limit_window:
  "find_skip_limit ds skip limit = Inr cur \<Longrightarrow> \<exists>w. cur = map as_dict w \<and> set w \<subseteq> set ds"
proof -
  assume a: "find_skip_limit ds skip limit = Inr cur"
  let ?w = "let r = drop (nat skip) ds in if limit = 0 then r else take (nat \<bar>limit\<bar>) r"
  have "cur = map as_dict ?w"
    using a by (auto simp: find_skip_limit_def Let_def take_map drop_map split: if_splits)
  moreover have "set ?w \<subseteq> set ds"
    by (auto simp: Let_def dest: in_set_takeD in_set_dropD)
  ultimately show ?thesis by blast
qed

section \<open>Identifiers: from text and back\<close>

lemma hexdigit_lt16:
  assumes "n < 16"
  shows "hexval (hexdigit n) = Some n" and "\<not> is_space (hexdigit n)"
proof -
  have "\<forall>k<16. hexval (hexdigit k) = Some k \<and> \<not> is_space (hexdigit k)"
    by (simp add: numeral_eq_Suc All_less_Suc hexval_def hexdigit_def is_space_def)
  with assms show "hexval (hexdigit n) = Some n" and "\<not> is_space (hexdigit n)"
    by simp_all
qed

lemma fromhex_hexlify: "fromhex (hexlify bs) = Some bs"
proof (induction bs)
  case Nil
  show ?case by (simp add: hexlify_def)
next
  case (Cons b bs)
  have "unat b < 2 ^ LENGTH(8)"
    by (rule unsigned_less)
  then have lt: "unat b div 16 < 16" "unat b mod 16 < 16"
    by simp_all
  have "hexlify (b # bs) = hexdigit (unat b div 16) # hexdigit (unat b mod 16) # hexlify bs"
    by (simp add: hexlify_def)
  then show ?case
    using Cons hexdigit_lt16 [OF lt(1)] hexdigit_lt16 [OF lt(2)] by simp
qed

lemma length_hexlify: "length (hexlify bs) = 2 * length bs"
  by (induction bs) (simp_all add: hexlify_def)

lemma ObjectId_of_str_py_str:
  "length (binary x) = 12 \<Longrightarrow> ObjectId_of_str (py_str (VOid x)) = Inr x"
  by (simp add: ObjectId_of_str_def fromhex_hexlify length_hexlify)

section \<open>Catalog operations: protected names and creation\<close>

text \<open>
  Claim C1, as stated, fails on the core: \<open>delete_collection\<close> has no guard for the
  credential collection. Called with \<open>SECURE_DB_NAME\<close> and \<open>users\<close> on a store that
  holds the collection, it returns \<open>True\<close> and the collection is gone.
\<close>

theorem delete_collection_users_counterexample:
  "delete_collection
     [(''secure_auth'', [(''users'', [(VInt 1, [(''username'', VStr ''admin'')])])])]
     SECURE_DB_NAME ''users'' = (True, [(''secure_auth'', [])])"
  by (simp add: delete_collection_def SECURE_DB_NAME_def get_db_def list_collection_names_def
      db_drop_collection_def)

text \<open>
  Claim C1, amended: the collection \<open>users\<close> of the secure database is protected in
  the routing layer. \<open>delete_collection_view\<close> for \<open>SECURE_DB_NAME\<close> and \<open>users\<close>
  leaves the store as it is, whatever the session. The core \<open>delete_collection\<close>
  returns \<open>True\<close> exactly when the collection exists, for every database and
  collection name; afterwards the collection is not there, and a call that returns
  \<open>False\<close> leaves the store unchanged.
\<close>

theorem delete_collection_guard_in_view:
  "snd (snd (delete_collection_view session c SECURE_DB_NAME ''users'')) = c
   \<and> fst (delete_collection c db_name coll_name) = (coll_name \<in> set (get_collections c db_name))
   \<and> coll_name \<notin> set (get_collections (snd (delete_collection c db_name coll_name)) db_name)
   \<and> (coll_name \<notin> set (get_collections c db_name) \<longrightarrow>
        snd (delete_collection c db_name coll_name) = c)"
  by (simp add: delete_collection_view_def delete_collection_def get_collections_def
      get_db_drop_collection list_collection_names_def AList.delete_notin_dom)

theorem delete_collection_guard_in_view_witness:
  "snd (snd (delete_collection_view [(''username'', ''admin'')]
       [(''secure_auth'', [(''users'', [])])] SECURE_DB_NAME ''users''))
     = [(''secure_auth'', [(''users'', [])])]
   \<and> ''logs'' \<notin> set (get_collections [(''secure_auth'', [(''users'', [])])] ''secure_auth'')
   \<and> delete_collection [(''secure_auth'', [(''users'', [])])] ''secure_auth'' ''logs''
       = (False, [(''secure_auth'', [(''users'', [])])])"
  using delete_collection_guard_in_view [of "[(''username'', ''admin'')]"
      "[(''secure_auth'', [(''users'', [])])]" "''secure_auth''" "''logs''"]
  by (simp add: delete_collection_def get_collections_def get_db_def list_collection_names_def)

text \<open>
  Claim C3: for \<open>admin\<close>, \<open>local\<close>, \<open>config\<close> and the secure database name,
  \<open>delete_database\<close> returns \<open>False\<close> and the store is unchanged. For every other
  name it returns \<open>True\<close>, the database is no longer listed and has no collections,
  and every other database is as before.
\<close>

theorem delete_database_protected:
  "(db_name \<in> {''admin'', ''local'', ''config'', SECURE_DB_NAME} \<longrightarrow>
      delete_database c db_name = (False, c))
   \<and> (db_name \<notin> {''admin'', ''local'', ''config'', SECURE_DB_NAME} \<longrightarrow>
      fst (delete_database c db_name) = True
      \<and> db_name \<notin> set (list_database_names (snd (delete_database c db_name)))
      \<and> get_collections (snd (delete_database c db_name)) db_name = []
      \<and> (\<forall>m. m \<noteq> db_name \<longrightarrow>
            get_db (snd (delete_database c db_name)) m = get_db c m))"
  by (auto simp: delete_database_def get_db_drop_database list_database_names_drop
      get_collections_def list_collection_names_def)

theorem delete_database_protected_witness:
  "''secure_auth'' \<in> {''admin'', ''local'', ''config'', SECURE_DB_NAME}
   \<and> delete_database [(''shop'', [(''items'', [])]), (''secure_auth'', [(''users'', [])])]
        ''secure_auth''
       = (False, [(''shop'', [(''items'', [])]), (''secure_auth'', [(''users'', [])])])
   \<and> delete_database [(''shop'', [(''items'', [])]), (''admin'', [(''system'', [])])] ''admin''
       = (False, [(''shop'', [(''items'', [])]), (''admin'', [(''system'', [])])])
   \<and> ''shop'' \<notin> {''admin'', ''local'', ''config'', SECURE_DB_NAME}
   \<and> fst (delete_database [(''shop'', [(''items'', [])]), (''secure_auth'', [(''users'', [])])]
        ''shop'') = True
   \<and> list_database_names (snd (delete_database
        [(''shop'', [(''items'', [])]), (''secure_auth'', [(''users'', [])])] ''shop''))
       = [''secure_auth'']"
  using delete_database_protected [of "''secure_auth''"
      "[(''shop'', [(''items'', [])]), (''secure_auth'', [(''users'', [])])]"]
    delete_database_protected [of "''admin''"
      "[(''shop'', [(''items'', [])]), (''admin'', [(''system'', [])])]"]
    delete_database_protected [of "''shop''"
      "[(''shop'', [(''items'', [])]), (''secure_auth'', [(''users'', [])])]"]
  by (simp add: SECURE_DB_NAME_def delete_database_def drop_database_def
      list_database_names_def)

text \<open>
  Claim C8: \<open>create_collection\<close> called twice with the same arguments. The first
  call returns \<open>True\<close> exactly when the collection was not there (it returns \<open>False\<close>
  and does nothing when the collection already exists); the second call returns
  \<open>False\<close> and changes nothing. After creating a collection that was not there,
  exactly one collection of that name exists, and the database is listed, also
  when it did not exist before.
\<close>

theorem create_collection_twice:
  "fst (create_collection c db_name coll_name) = (coll_name \<notin> set (get_collections c db_name))
   \<and> create_collection (snd (create_collection c db_name coll_name)) db_name coll_name
       = (False, snd (create_collection c db_name coll_name))
   \<and> (coll_name \<notin> set (get_collections c db_name) \<longrightarrow>
        length (filter (\<lambda>n. n = coll_name)
          (get_collections (snd (create_collection c db_name coll_name)) db_name)) = 1
        \<and> db_name \<in> set (list_database_names (snd (create_collection c db_name coll_name))))"
proof (cases "coll_name \<in> set (get_collections c db_name)")
  case True
  then show ?thesis
    by (simp add: create_collection_def get_collections_def)
next
  case False
  have 1: "create_collection c db_name coll_name
      = (True, db_create_collection c db_name coll_name)"
    using False by (simp add: create_collection_def get_collections_def)
  have 2: "get_collections (db_create_collection c db_name coll_name) db_name
      = get_collections c db_name @ [coll_name]"
    by (simp add: get_collections_def get_db_create list_collection_names_def)
  have 3: "filter (\<lambda>n. n = coll_name) (get_collections c db_name) = []"
    using False by (auto simp: filter_empty_conv)
  have 4: "db_name \<in> set (list_database_names (db_create_collection c db_name coll_name))"
    unfolding db_create_collection_def by (rule list_database_names_update) simp
  have 5: "create_collection (db_create_collection c db_name coll_name) db_name coll_name
      = (False, db_create_collection c db_name coll_name)"
    using 2 by (simp add: create_collection_def get_collections_def)
  show ?thesis
    using False 2 3 4 5 by (simp add: 1)
qed

theorem create_collection_twice_witness:
  "''items'' \<notin> set (get_collections [] ''shop'')
   \<and> ''shop'' \<notin> set (list_database_names [])
   \<and> create_collection [] ''shop'' ''items'' = (True, [(''shop'', [(''items'', [])])])
   \<and> create_collection [(''shop'', [(''items'', [])])] ''shop'' ''items''
       = (False, [(''shop'', [(''items'', [])])])
   \<and> get_collections [(''shop'', [(''items'', [])])] ''shop'' = [''items'']
   \<and> list_database_names [(''shop'', [(''items'', [])])] = [''shop'']"
  using create_collection_twice [of "[]" "''shop''" "''items''"]
  by (simp add: create_collection_def get_collections_def get_db_def list_collection_names_def
      db_create_collection_def list_database_names_def)

section \<open>Document operations\<close>





lemma ceil_div:
  assumes "1 \<le> p"
  shows "(t + p - 1) div p = \<lceil>real_of_int t / real_of_int p\<rceil>"
proof -
  define q where "q = (t + p - 1) div p"
  define r where "r = (t + p - 1) mod p"
  have r: "0 \<le> r" "r < p"
    using assms by (simp_all add: r_def)
  have "t + p - 1 = p * q + r"
    by (simp add: q_def r_def)
  then have "- t = p * (- q) + (p - 1 - r)"
    by (simp add: algebra_simps)
  then have "- t div p = - q"
    using r by (intro int_div_pos_eq [where r = "p - 1 - r"]) auto
  then show ?thesis
    by (simp add: ceiling_divide_eq_div q_def)
qed

lemma stringify_ids_as_dict:
  "stringify_ids (map as_dict w) = Inr (map (\<lambda>s. (''_id'', VStr (py_str (fst s))) # snd s) w)"
  by (induction w) (simp_all add: as_dict_def)

text \<open>
  Claim C4: for a page and a page size of at least 1, \<open>paginate_documents\<close> returns
  a result whose total is the number of documents of the collection, whose
  documents are the at most \<open>page_size\<close> documents from offset
  \<open>(page - 1) * page_size\<close> on, and whose \<open>total_pages\<close> is the total divided by the
  page size, rounded up, and 1 for an empty collection. An empty collection gives
  total 0, one page and no documents; 25 documents in pages of 10 give 3 pages of
  10, 10 and 5 documents, and none on later pages.
\<close>

theorem paginate_documents_page:
  assumes "1 \<le> pg" and "1 \<le> pg_size"
  shows "\<exists>r. paginate_documents c db_name coll_name pg pg_size = Inr r
     \<and> page r = pg \<and> page_size r = pg_size
     \<and> total r = int (length (get_collection c db_name coll_name))
     \<and> documents r = map (\<lambda>s. (''_id'', VStr (py_str (fst s))) # snd s)
          (take (nat pg_size) (drop (nat ((pg - 1) * pg_size))
             (get_collection c db_name coll_name)))
     \<and> length (documents r) \<le> nat pg_size
     \<and> total_pages r =
          (if total r = 0 then 1 else \<lceil>real_of_int (total r) / real_of_int pg_size\<rceil>)
     \<and> (total r = 0 \<longrightarrow> total_pages r = 1 \<and> documents r = [])
     \<and> (total r = 25 \<and> pg_size = 10 \<longrightarrow>
          total_pages r = 3
          \<and> length (documents r) = (if pg \<le> 2 then 10 else if pg = 3 then 5 else 0))"
proof -
  let ?ds = "get_collection c db_name coll_name"
  let ?w = "take (nat pg_size) (drop (nat ((pg - 1) * pg_size)) ?ds)"
  let ?r = "\<lparr>documents = map (\<lambda>s. (''_id'', VStr (py_str (fst s))) # snd s) ?w,
      page = pg, page_size = pg_size, total = int (length ?ds),
      total_pages = (if int (length ?ds) > 0
                     then (int (length ?ds) + pg_size - 1) div pg_size else 1)\<rparr>"
  have skip: "0 \<le> (pg - 1) * pg_size"
    using assms by simp
  then have "\<not> (pg - 1) * pg_size < 0"
    by linarith
  then have "find_skip_limit ?ds ((pg - 1) * pg_size) pg_size
      = Inr (let r = drop (nat ((pg - 1) * pg_size)) (map as_dict ?ds)
             in if pg_size = 0 then r else take (nat \<bar>pg_size\<bar>) r)"
    unfolding find_skip_limit_def by (rule if_not_P)
  moreover have "pg_size \<noteq> 0" "\<bar>pg_size\<bar> = pg_size"
    using assms(2) by simp_all
  ultimately have cur: "find_skip_limit ?ds ((pg - 1) * pg_size) pg_size = Inr (map as_dict ?w)"
    by (simp add: take_map drop_map)
  have res: "paginate_documents c db_name coll_name pg pg_size = Inr ?r"
    using assms by (simp add: paginate_documents_def cur stringify_ids_as_dict count_documents_def Let_def)
  have pages: "total_pages ?r =
      (if total ?r = 0 then 1 else \<lceil>real_of_int (total ?r) / real_of_int pg_size\<rceil>)"
    using ceil_div [OF assms(2), of "int (length ?ds)"] by simp
  have len: "length ?w = min (nat pg_size) (length ?ds - nat ((pg - 1) * pg_size))"
    by simp
  have ex25: "length ?ds = 25 \<Longrightarrow> pg_size = 10 \<Longrightarrow>
      length ?w = (if pg \<le> 2 then 10 else if pg = 3 then 5 else 0)"
    using assms(1) unfolding len by (auto simp: nat_mult_distrib)
  show ?thesis
    apply (rule exI [of _ ?r])
    using pages ex25 by (simp add: res)
qed

theorem paginate_documents_page_witness:
  "(1::int) \<le> 3 \<and> (1::int) \<le> 10
   \<and> (\<exists>r. paginate_documents [(''d'', [(''c'', map (\<lambda>i. (VInt (int i), [])) [0..<25])])]
            ''d'' ''c'' 3 10 = Inr r
        \<and> total r = 25 \<and> total_pages r = 3 \<and> length (documents r) = 5)
   \<and> (\<exists>r. paginate_documents [] ''d'' ''c'' 1 10 = Inr r
        \<and> total r = 0 \<and> total_pages r = 1 \<and> documents r = [])"
proof -
  have h1: "(1::int) \<le> 3" and h2: "(1::int) \<le> 10" and h3: "(1::int) \<le> 1"
    by simp_all
  have c25: "get_collection [(''d'', [(''c'', map (\<lambda>i. (VInt (int i), [])) [0..<25])])] ''d'' ''c''
      = map (\<lambda>i. (VInt (int i), [])) [0..<25]"
    by (simp add: get_collection_def get_db_def)
  have c0: "get_collection [] ''d'' ''c'' = []"
    by (simp add: get_collection_def get_db_def)
  show ?thesis
    using paginate_documents_page [OF h1 h2,
        of "[(''d'', [(''c'', map (\<lambda>i. (VInt (int i), [])) [0..<25])])]" "''d''" "''c''"]
      paginate_documents_page [OF h3 h2, of "[]" "''d''" "''c''"]
    unfolding c25 c0 by (auto simp del: upt.simps)
qed

text \<open>
  Claim C5: for an id that \<open>ObjectId\<close> rejects, \<open>get_document\<close> returns \<open>None\<close> and
  \<open>update_document\<close>, \<open>delete_document\<close>, \<open>update_credential\<close> and
  \<open>delete_credential\<close> return \<open>False\<close>; nothing is raised and the store is
  unchanged.
\<close>

theorem malformed_id_is_not_found:
  assumes "ObjectId_of_str doc_id = Inl InvalidId"
  shows "get_document c db_name coll_name doc_id = Inr None
    \<and> update_document store_set c db_name coll_name doc_id data = (Inr False, c)
    \<and> delete_document c db_name coll_name doc_id = (False, c)
    \<and> update_credential store_set gen c doc_id username password role = (Inr False, c)
    \<and> delete_credential c doc_id = (False, c)"
  using assms
  by (simp add: get_document_def update_document_def delete_document_def
      update_credential_def delete_credential_def)

theorem malformed_id_is_not_found_witness:
  "ObjectId_of_str ''not-an-id'' = Inl InvalidId
   \<and> get_document [] ''shop'' ''items'' ''not-an-id'' = Inr None
   \<and> update_document refuse_all [] ''shop'' ''items'' ''not-an-id'' [(''x'', VInt 2)]
       = (Inr False, [])
   \<and> delete_document [] ''shop'' ''items'' ''not-an-id'' = (False, [])
   \<and> update_credential refuse_all (\<lambda>p. p) [] ''not-an-id'' ''bob'' None ''user''
       = (Inr False, [])
   \<and> delete_credential [] ''not-an-id'' = (False, [])"
proof -
  have h: "ObjectId_of_str ''not-an-id'' = Inl InvalidId"
    by (simp add: ObjectId_of_str_def)
  show ?thesis
    using h malformed_id_is_not_found [OF h, of "[]" "''shop''" "''items''" refuse_all
        "[(''x'', VInt 2)]" "\<lambda>p. p" "''bob''" None "''user''"]
    by simp
qed

text \<open>
  Claim C9, as stated, fails for a mapping that brings its own \<open>_id\<close>:
  \<open>insert_document\<close> stores the mapping as given and returns that \<open>_id\<close> as text,
  and \<open>get_document\<close> does not find the document under it.
\<close>

theorem insert_document_with_id_counterexample:
  "insert_document (ObjectId [0x50, 0x7f, 0x1f, 0x77, 0xbc, 0xf8, 0x6c, 0xd7, 0x99, 0x43, 0x90, 0x11])
     [] ''shop'' ''items'' [(''_id'', VStr ''foo''), (''a'', VInt 1)]
   = (Inr ''foo'', [(''shop'', [(''items'', [(VStr ''foo'', [(''a'', VInt 1)])])])])
   \<and> get_document [(''shop'', [(''items'', [(VStr ''foo'', [(''a'', VInt 1)])])])]
       ''shop'' ''items'' ''foo'' = Inr None"
  by (simp add: insert_document_def coll_insert_one_def insert_one_def get_collection_def
      get_db_def find_one_def put_collection_def get_document_def ObjectId_of_str_def Let_def)

text \<open>
  Claim C9, amended: for a mapping without an \<open>_id\<close> field, \<open>insert_document\<close>
  returns an id \<open>X\<close>, the text of the identifier the driver generated (12 bytes,
  not yet in the collection), and \<open>get_document\<close> for \<open>X\<close> returns the mapping
  with \<open>_id\<close> set to \<open>X\<close>.
\<close>

theorem insert_get_round_trip:
  assumes "map_of data ''_id'' = None"
    and "VOid new_oid \<notin> fst ` set (get_collection c db_name coll_name)"
    and "length (binary new_oid) = 12"
  shows "\<exists>X c'. insert_document new_oid c db_name coll_name data = (Inr X, c')
     \<and> get_document c' db_name coll_name X = Inr (Some ((''_id'', VStr X) # data))"
proof -
  let ?ds = "get_collection c db_name coll_name"
  let ?X = "py_str (VOid new_oid)"
  let ?c' = "put_collection c db_name coll_name (?ds @ [(VOid new_oid, data)])"
  have "''_id'' \<notin> fst ` set data"
    using assms(1) by (simp add: map_of_eq_None_iff)
  then have del: "AList.delete ''_id'' data = data"
    by simp
  have fresh: "find_one ?ds ''_id'' (VOid new_oid) = None"
    using assms(2) by (simp add: find_one_id)
  have ins: "insert_document new_oid c db_name coll_name data = (Inr ?X, ?c')"
    using assms(1) fresh del
    by (simp add: insert_document_def coll_insert_one_def insert_one_def Let_def)
  have "find_one (?ds @ [(VOid new_oid, data)]) ''_id'' (VOid new_oid)
      = Some ((''_id'', VOid new_oid) # data)"
    using fresh by (simp add: find_one_append as_dict_def)
  then have "get_document ?c' db_name coll_name ?X = Inr (Some ((''_id'', VStr ?X) # data))"
    using ObjectId_of_str_py_str [OF assms(3)]
    by (simp add: get_document_def get_collection_put)
  with ins show ?thesis by blast
qed

theorem insert_get_round_trip_witness:
  "map_of [(''a'', VInt 1)] ''_id'' = None
   \<and> VOid (ObjectId [0x50, 0x7f, 0x1f, 0x77, 0xbc, 0xf8, 0x6c, 0xd7, 0x99, 0x43, 0x90, 0x11])
        \<notin> fst ` set (get_collection [] ''shop'' ''items'')
   \<and> length (binary (ObjectId [0x50, 0x7f, 0x1f, 0x77, 0xbc, 0xf8, 0x6c, 0xd7, 0x99, 0x43, 0x90, 0x11])) = 12
   \<and> (\<exists>X c'. insert_document
         (ObjectId [0x50, 0x7f, 0x1f, 0x77, 0xbc, 0xf8, 0x6c, 0xd7, 0x99, 0x43, 0x90, 0x11])
         [] ''shop'' ''items'' [(''a'', VInt 1)] = (Inr X, c')
       \<and> get_document c' ''shop'' ''items'' X = Inr (Some [(''_id'', VStr X), (''a'', VInt 1)]))"
proof -
  have h1: "map_of [(''a'', VInt 1)] ''_id'' = None"
    by simp
  have h2: "VOid (ObjectId [0x50, 0x7f, 0x1f, 0x77, 0xbc, 0xf8, 0x6c, 0xd7, 0x99, 0x43, 0x90, 0x11])
        \<notin> fst ` set (get_collection [] ''shop'' ''items'')"
    by (simp add: get_collection_def get_db_def)
  have h3: "length (binary (ObjectId [0x50, 0x7f, 0x1f, 0x77, 0xbc, 0xf8, 0x6c, 0xd7, 0x99, 0x43, 0x90, 0x11])) = 12"
    by simp
  show ?thesis
    using h1 h2 h3 insert_get_round_trip [OF h1 h2 h3] by blast
qed

text \<open>
  Claim C10: identifiers cross the interface as text. A document that
  \<open>get_document\<close> or \<open>paginate_documents\<close> returns is a stored document whose
  \<open>_id\<close> is replaced by what \<open>str\<close> gives for it, and \<open>insert_document\<close> returns
  what \<open>str\<close> gives for the \<open>_id\<close> of the document it added.
\<close>

theorem identifiers_cross_as_strings:
  "(get_document c db_name coll_name doc_id = Inr (Some d) \<longrightarrow>
      (\<exists>s\<in>set (get_collection c db_name coll_name).
          d = (''_id'', VStr (py_str (fst s))) # snd s))
   \<and> (paginate_documents c db_name coll_name pg pg_size = Inr r \<longrightarrow>
      (\<forall>d'\<in>set (documents r). \<exists>s\<in>set (get_collection c db_name coll_name).
          d' = (''_id'', VStr (py_str (fst s))) # snd s))
   \<and> (insert_document new_oid c db_name coll_name data = (Inr X, c') \<longrightarrow>
      (\<exists>s. get_collection c' db_name coll_name = get_collection c db_name coll_name @ [s]
          \<and> X = py_str (fst s)))"
proof (intro conjI impI)
  assume a: "get_document c db_name coll_name doc_id = Inr (Some d)"
  then obtain x d0 where x: "ObjectId_of_str doc_id = Inr x"
    and f: "find_one (get_collection c db_name coll_name) ''_id'' (VOid x) = Some d0"
    by (auto simp: get_document_def split: sum.splits option.splits if_splits)
  from find_one_mem [OF f] obtain s
    where s: "s \<in> set (get_collection c db_name coll_name)" "d0 = as_dict s"
    by blast
  have "d = (''_id'', VStr (py_str (fst s))) # snd s"
    using a x f s(2) by (simp add: get_document_def as_dict_def)
  with s(1) show "\<exists>s\<in>set (get_collection c db_name coll_name).
      d = (''_id'', VStr (py_str (fst s))) # snd s"
    by blast
next
  assume a: "paginate_documents c db_name coll_name pg pg_size = Inr r"
  then obtain cur where cur: "find_skip_limit (get_collection c db_name coll_name)
      ((pg - 1) * pg_size) pg_size = Inr cur"
    by (auto simp: paginate_documents_def Let_def split: sum.splits)
  then obtain w where w: "cur = map as_dict w" "set w \<subseteq> set (get_collection c db_name coll_name)"
    using find_skip_limit_window by blast
  have "documents r = map (\<lambda>s. (''_id'', VStr (py_str (fst s))) # snd s) w"
    using a cur w(1)
    by (auto simp: paginate_documents_def Let_def stringify_ids_as_dict split: if_splits)
  then show "\<forall>d'\<in>set (documents r). \<exists>s\<in>set (get_collection c db_name coll_name).
      d' = (''_id'', VStr (py_str (fst s))) # snd s"
    using w(2) by auto
next
  assume "insert_document new_oid c db_name coll_name data = (Inr X, c')"
  then show "\<exists>s. get_collection c' db_name coll_name = get_collection c db_name coll_name @ [s]
      \<and> X = py_str (fst s)"
    by (auto simp: insert_document_def coll_insert_one_def insert_one_def Let_def
        get_collection_put split: sum.splits if_splits prod.splits)
qed

theorem identifiers_cross_as_strings_witness:
  "get_document
      [(''shop'', [(''items'',
         [(VOid (ObjectId [0x50, 0x7f, 0x1f, 0x77, 0xbc, 0xf8, 0x6c, 0xd7, 0x99, 0x43, 0x90, 0x11]),
           [(''x'', VInt 1)])])])]
      ''shop'' ''items'' ''507f1f77bcf86cd799439011''
     = Inr (Some [(''_id'', VStr ''507f1f77bcf86cd799439011''), (''x'', VInt 1)])
   \<and> paginate_documents
      [(''shop'', [(''items'',
         [(VOid (ObjectId [0x50, 0x7f, 0x1f, 0x77, 0xbc, 0xf8, 0x6c, 0xd7, 0x99, 0x43, 0x90, 0x11]),
           [(''x'', VInt 1)])])])]
      ''shop'' ''items'' 1 10
     = Inr \<lparr>documents = [[(''_id'', VStr ''507f1f77bcf86cd799439011''), (''x'', VInt 1)]],
            page = 1, page_size = 10, total = 1, total_pages = 1\<rparr>
   \<and> insert_document
      (ObjectId [0x50, 0x7f, 0x1f, 0x77, 0xbc, 0xf8, 0x6c, 0xd7, 0x99, 0x43, 0x90, 0x11])
      [] ''shop'' ''items'' [(''x'', VInt 1)]
     = (Inr ''507f1f77bcf86cd799439011'',
        [(''shop'', [(''items'',
         [(VOid (ObjectId [0x50, 0x7f, 0x1f, 0x77, 0xbc, 0xf8, 0x6c, 0xd7, 0x99, 0x43, 0x90, 0x11]),
           [(''x'', VInt 1)])])])])
   \<and> (\<exists>s. get_collection
        [(''shop'', [(''items'',
         [(VOid (ObjectId [0x50, 0x7f, 0x1f, 0x77, 0xbc, 0xf8, 0x6c, 0xd7, 0x99, 0x43, 0x90, 0x11]),
           [(''x'', VInt 1)])])])] ''shop'' ''items''
          = get_collection [] ''shop'' ''items'' @ [s]
        \<and> ''507f1f77bcf86cd799439011'' = py_str (fst s))"
proof -
  let ?x = "ObjectId [0x50, 0x7f, 0x1f, 0x77, 0xbc, 0xf8, 0x6c, 0xd7, 0x99, 0x43, 0x90, 0x11]"
  let ?c = "[(''shop'', [(''items'', [(VOid ?x, [(''x'', VInt 1)])])])]"
  have g: "get_document ?c ''shop'' ''items'' ''507f1f77bcf86cd799439011''
      = Inr (Some [(''_id'', VStr ''507f1f77bcf86cd799439011''), (''x'', VInt 1)])"
    by (simp add: get_document_def ObjectId_of_str_def hexval_def is_space_def get_collection_def
        get_db_def find_one_def as_dict_def hexlify_def hexdigit_def)
  have p: "paginate_documents ?c ''shop'' ''items'' 1 10
      = Inr \<lparr>documents = [[(''_id'', VStr ''507f1f77bcf86cd799439011''), (''x'', VInt 1)]],
            page = 1, page_size = 10, total = 1, total_pages = 1\<rparr>"
    by (simp add: paginate_documents_def get_collection_def get_db_def count_documents_def
        find_skip_limit_def as_dict_def hexlify_def hexdigit_def)
  have i: "insert_document ?x [] ''shop'' ''items'' [(''x'', VInt 1)]
      = (Inr ''507f1f77bcf86cd799439011'', ?c)"
    by (simp add: insert_document_def coll_insert_one_def insert_one_def Let_def
        get_collection_def get_db_def find_one_def put_collection_def hexlify_def hexdigit_def)
  show ?thesis
    using g p i
      identifiers_cross_as_strings [of ?c "''shop''" "''items''" "''507f1f77bcf86cd799439011''"
        "[(''_id'', VStr ''507f1f77bcf86cd799439011''), (''x'', VInt 1)]" 1 10
        "\<lparr>documents = [[(''_id'', VStr ''507f1f77bcf86cd799439011''), (''x'', VInt 1)]],
            page = 1, page_size = 10, total = 1, total_pages = 1\<rparr>"
        ?x "[(''x'', VInt 1)]" "''507f1f77bcf86cd799439011''" ?c]
      identifiers_cross_as_strings [of "[]" "''shop''" "''items''" "''507f1f77bcf86cd799439011''"
        "[]" 1 10 "\<lparr>documents = [], page = 1, page_size = 10, total = 0, total_pages = 1\<rparr>"
        ?x "[(''x'', VInt 1)]" "''507f1f77bcf86cd799439011''" ?c]
    by simp
qed

section \<open>Credentials\<close>

text \<open>
  Claim C6: on an empty credential collection \<open>init_auth_collection\<close> inserts
  exactly one credential, the administrator with the configured name (default
  \<open>admin\<close>), the hash of the configured password (default \<open>admin123\<close>) and the
  role \<open>admin\<close>. When a credential exists it does nothing. A second call in
  sequence never inserts: it returns the store of the first call.
\<close>

theorem init_auth_collection_bootstrap:
  "(secure_users c = [] \<longrightarrow>
      fst (init_auth_collection env gen new_oid c)
        = Inr [''[INIT] Created default admin user: '' @ getenv env ''ADMIN_USERNAME'' ''admin'']
    \<and> secure_users (snd (init_auth_collection env gen new_oid c))
        = [(VOid new_oid,
            [(''username'', VStr (getenv env ''ADMIN_USERNAME'' ''admin'')),
             (''password_hash'', VStr (gen (getenv env ''ADMIN_PASSWORD'' ''admin123''))),
             (''role'', VStr ''admin'')])])
   \<and> (secure_users c \<noteq> [] \<longrightarrow> init_auth_collection env gen new_oid c = (Inr [], c))
   \<and> init_auth_collection env' gen' new_oid' (snd (init_auth_collection env gen new_oid c))
       = (Inr [], snd (init_auth_collection env gen new_oid c))"
proof -
  have empty: "secure_users c = [] \<Longrightarrow>
      init_auth_collection env gen new_oid c
        = (Inr [''[INIT] Created default admin user: '' @ getenv env ''ADMIN_USERNAME'' ''admin''],
           put_collection c SECURE_DB_NAME SECURE_USERS_COLL
             [(VOid new_oid,
               [(''username'', VStr (getenv env ''ADMIN_USERNAME'' ''admin'')),
                (''password_hash'', VStr (gen (getenv env ''ADMIN_PASSWORD'' ''admin123''))),
                (''role'', VStr ''admin'')])])"
    by (simp add: init_auth_collection_def count_documents_def coll_insert_one_def
        insert_one_def secure_users_def find_one_def Let_def)
  have full: "\<And>e g n c. secure_users c \<noteq> [] \<Longrightarrow> init_auth_collection e g n c = (Inr [], c)"
    by (simp add: init_auth_collection_def count_documents_def)
  have after: "secure_users (snd (init_auth_collection env gen new_oid c)) \<noteq> []"
    by (cases "secure_users c = []") (simp_all add: empty full secure_users_def get_collection_put)
  show ?thesis
    using empty full [OF after] full
    by (simp add: secure_users_def get_collection_put)
qed

theorem init_auth_collection_bootstrap_witness:
  "secure_users [] = []
   \<and> init_auth_collection (\<lambda>k. None) (\<lambda>p. ''hash:'' @ p) (ObjectId [1, 2, 3, 4, 5, 6, 7, 8, 9, 10, 11, 12]) []
      = (Inr [''[INIT] Created default admin user: admin''],
         [(''secure_auth'', [(''users'',
            [(VOid (ObjectId [1, 2, 3, 4, 5, 6, 7, 8, 9, 10, 11, 12]),
              [(''username'', VStr ''admin''), (''password_hash'', VStr ''hash:admin123''),
               (''role'', VStr ''admin'')])])])])
   \<and> secure_users [(''secure_auth'', [(''users'', [(VInt 7, [(''username'', VStr ''root'')])])])] \<noteq> []
   \<and> init_auth_collection (\<lambda>k. None) (\<lambda>p. ''hash:'' @ p) (ObjectId [1, 2, 3, 4, 5, 6, 7, 8, 9, 10, 11, 12])
        [(''secure_auth'', [(''users'', [(VInt 7, [(''username'', VStr ''root'')])])])]
      = (Inr [], [(''secure_auth'', [(''users'', [(VInt 7, [(''username'', VStr ''root'')])])])])"
  using init_auth_collection_bootstrap [of "[]" "\<lambda>k. None" "\<lambda>p. ''hash:'' @ p"
      "ObjectId [1, 2, 3, 4, 5, 6, 7, 8, 9, 10, 11, 12]"]
    init_auth_collection_bootstrap [of
      "[(''secure_auth'', [(''users'', [(VInt 7, [(''username'', VStr ''root'')])])])]"
      "\<lambda>k. None" "\<lambda>p. ''hash:'' @ p" "ObjectId [1, 2, 3, 4, 5, 6, 7, 8, 9, 10, 11, 12]"]
  by (simp add: init_auth_collection_def secure_users_def get_collection_def get_db_def
      SECURE_DB_NAME_def SECURE_USERS_COLL_def count_documents_def coll_insert_one_def
      insert_one_def find_one_def put_collection_def getenv_def Let_def)

text \<open>
  Claim C7: \<open>verify_user\<close> returns the same bare \<open>False\<close> when no stored credential
  has the username and when the credential found has a hash that the password
  does not verify against.
\<close>

theorem verify_user_failure_shape:
  "(find_one (secure_users c) ''username'' (VStr username) = None \<longrightarrow>
      verify_user chk c username password = Inr False)
   \<and> (find_one (secure_users c') ''username'' (VStr username') = Some user
        \<and> map_of user ''password_hash'' = Some (VStr h) \<and> \<not> chk h password' \<longrightarrow>
      verify_user chk c' username' password' = Inr False)"
  by (auto simp: verify_user_def)

theorem verify_user_failure_shape_witness:
  "find_one (secure_users [(''secure_auth'', [(''users'',
       [(VInt 1, [(''username'', VStr ''admin''), (''password_hash'', VStr ''h1'')])])])])
     ''username'' (VStr ''nouser'') = None
   \<and> verify_user (\<lambda>h p. h = ''h1'' \<and> p = ''admin123'')
       [(''secure_auth'', [(''users'',
         [(VInt 1, [(''username'', VStr ''admin''), (''password_hash'', VStr ''h1'')])])])]
       ''nouser'' ''anything'' = Inr False
   \<and> find_one (secure_users [(''secure_auth'', [(''users'',
       [(VInt 1, [(''username'', VStr ''admin''), (''password_hash'', VStr ''h1'')])])])])
     ''username'' (VStr ''admin'')
       = Some [(''_id'', VInt 1), (''username'', VStr ''admin''), (''password_hash'', VStr ''h1'')]
   \<and> verify_user (\<lambda>h p. h = ''h1'' \<and> p = ''admin123'')
       [(''secure_auth'', [(''users'',
         [(VInt 1, [(''username'', VStr ''admin''), (''password_hash'', VStr ''h1'')])])])]
       ''admin'' ''wrongpass'' = Inr False"
  using verify_user_failure_shape [of
      "[(''secure_auth'', [(''users'',
         [(VInt 1, [(''username'', VStr ''admin''), (''password_hash'', VStr ''h1'')])])])]"
      "''nouser''" "\<lambda>h p. h = ''h1'' \<and> p = ''admin123''" "''anything''"
      "[(''secure_auth'', [(''users'',
         [(VInt 1, [(''username'', VStr ''admin''), (''password_hash'', VStr ''h1'')])])])]"
      "''admin''"
      "[(''_id'', VInt 1), (''username'', VStr ''admin''), (''password_hash'', VStr ''h1'')]"
      "''h1''" "''wrongpass''"]
  by (simp add: find_one_def secure_users_def get_collection_def get_db_def as_dict_def
      SECURE_DB_NAME_def SECURE_USERS_COLL_def)

end
